theory Spec2Isabelle
  imports Complex_Main "HOL-Library.Log_Nat"
begin

section \<open>Python floats (IEEE 754 binary64)\<close>

text \<open>
  A Python \<open>float\<close> is a binary64 number. A finite one is modelled by the real it denotes,
  and every arithmetic operation by the exact operation followed by \<open>round64\<close>, the
  rounding to the nearest binary64 number, ties to the even significand. The numbers that
  the code computes with stay far below \<open>2 ^ 1024\<close>, so overflow to infinity is not
  modelled.
\<close>

text \<open>Rounding to the nearest integer, ties to even.\<close>
definition round_half_even :: "real \<Rightarrow> int" where
  "round_half_even r =
     (let f = \<lfloor>r\<rfloor>
      in if r - of_int f < 1 / 2 then f
         else if r - of_int f > 1 / 2 then f + 1
         else if even f then f else f + 1)"

text \<open>The binary64 numbers are the multiples of \<open>2 ^ - 1074\<close> with at most 53 significant bits.\<close>
definition emin :: nat where
  "emin = 1074"

text \<open>
  \<open>round64 x\<close>: with \<open>n\<close> the integer part of \<open>\<bar>x\<bar> * 2 ^ 1074\<close>, the unit in the last
  place of \<open>x\<close> is \<open>2 ^ k / 2 ^ 1074\<close> for \<open>k = bitlen n - 53\<close> (and \<open>k = 0\<close> for the
  subnormal numbers); \<open>x\<close> is rounded to a multiple of it.
\<close>
definition round64 :: "real \<Rightarrow> real" where
  "round64 x =
     (let n = \<lfloor>\<bar>x\<bar> * 2 ^ emin\<rfloor>;
          k = nat (bitlen n - 53)
      in of_int (round_half_even (x * 2 ^ emin / 2 ^ k)) * 2 ^ k / 2 ^ emin)"

text \<open>\<open>x + y\<close>, \<open>x * y\<close> and \<open>x / y\<close> on floats; a float literal \<open>c\<close> is \<open>round64 c\<close>.\<close>
definition fadd :: "real \<Rightarrow> real \<Rightarrow> real" where
  "fadd x y = round64 (x + y)"

definition fmul :: "real \<Rightarrow> real \<Rightarrow> real" where
  "fmul x y = round64 (x * y)"

definition fdiv :: "real \<Rightarrow> real \<Rightarrow> real" where
  "fdiv x y = round64 (x / y)"

section \<open>Data model (models.py)\<close>

text \<open>
  A naive Python \<open>datetime\<close> is modelled by the number of microseconds since
  0001-01-01T00:00:00 (proleptic Gregorian calendar), a \<open>timedelta\<close> by a number of
  microseconds; both are unbounded integers here (Python raises OverflowError outside the
  years 1..9999).
\<close>

type_synonym datetime = int
type_synonym timedelta = int

definition us_per_second :: int where "us_per_second = 1000000"
definition us_per_day :: int where "us_per_day = 86400 * us_per_second"

definition timedelta_minutes :: "int \<Rightarrow> timedelta" where
  "timedelta_minutes m = m * 60 * us_per_second"

definition timedelta_days :: "int \<Rightarrow> timedelta" where
  "timedelta_days d = d * us_per_day"

text \<open>\<open>td.days\<close>: timedeltas are normalised with a floored day count.\<close>
definition days :: "timedelta \<Rightarrow> int" where
  "days td = td div us_per_day"

text \<open>\<open>td.total_seconds()\<close>: the microseconds divided by \<open>10 ** 6\<close>, as a float.\<close>
definition total_seconds :: "timedelta \<Rightarrow> real" where
  "total_seconds td = fdiv (real_of_int td) (real_of_int us_per_second)"

text \<open>\<open>dt.date()\<close> as the number of whole days since 0001-01-01.\<close>
definition date_of :: "datetime \<Rightarrow> int" where
  "date_of dt = dt div us_per_day"

text \<open>\<open>dt.weekday()\<close>: Monday is 0; 0001-01-01 is a Monday.\<close>
definition weekday :: "datetime \<Rightarrow> nat" where
  "weekday dt = nat (date_of dt mod 7)"

text \<open>\<open>dt.hour\<close>\<close>
definition hour :: "datetime \<Rightarrow> int" where
  "hour dt = (dt mod us_per_day) div (3600 * us_per_second)"

text \<open>\<open>dt.strftime('%A').lower()\<close> (C locale)\<close>
definition day_name :: "datetime \<Rightarrow> string" where
  "day_name dt =
     [''monday'', ''tuesday'', ''wednesday'', ''thursday'', ''friday'', ''saturday'', ''sunday'']
       ! weekday dt"

datatype AppointmentStatus = SCHEDULED | CONFIRMED | COMPLETED | CANCELLED | NO_SHOW | RESCHEDULED

datatype PatientStatus = ACTIVE | INACTIVE | HIGH_RISK

datatype InsuranceStatus = VERIFIED | PENDING | EXPIRED | INVALID

record Patient =
  pat_id :: string
  first_name :: string
  last_name :: string
  date_of_birth :: datetime
  phone :: string
  email :: string
  address :: string
  emergency_contact :: string
  insurance_provider :: string
  insurance_number :: string
  insurance_status :: InsuranceStatus
  pat_status :: PatientStatus
  no_show_count :: int
  last_appointment :: "datetime option"
  preferred_communication :: string
  pat_notes :: string
  pat_created_at :: datetime

text \<open>
  One entry of \<open>Doctor.working_hours\<close>. The source stores the strings
  \<open>{"start": "09:00", "end": "17:00"}\<close> and parses them with
  \<open>strptime(..., '%H:%M')\<close>; the model holds the parsed hour and minute.
\<close>
record WorkingHours =
  wh_start :: "nat \<times> nat"
  wh_end :: "nat \<times> nat"

record Doctor =
  doc_id :: string
  doc_first_name :: string
  doc_last_name :: string
  specialty :: string
  doc_phone :: string
  doc_email :: string
  working_hours :: "string \<rightharpoonup> WorkingHours"
  appointment_duration :: int
  max_patients_per_day :: int
  is_active :: bool

record Appointment =
  appt_id :: string
  patient_id :: string
  doctor_id :: string
  appointment_datetime :: datetime
  duration :: int
  status :: AppointmentStatus
  appointment_type :: string
  appt_notes :: string
  insurance_verified :: bool
  reminder_sent :: bool
  confirmation_sent :: bool
  created_at :: datetime
  updated_at :: datetime

record NoShowPrediction =
  pred_patient_id :: string
  pred_appointment_id :: string
  risk_score :: real
  risk_factors :: "string list"
  prediction_date :: datetime

section \<open>Persistence (database.py)\<close>

text \<open>
  The JSON files are lists of dictionaries, read and rewritten whole by every call; the
  model keeps the lists of records (\<open>to_dict\<close> followed by \<open>_dict_to_*\<close> is the
  identity on them).
\<close>

record MedicalDatabase =
  patients :: "Patient list"
  doctors :: "Doctor list"
  appointments :: "Appointment list"
  predictions :: "NoShowPrediction list"

text \<open>
  The loop \<open>for i, x in enumerate(xs): if x['id'] == new.id: xs[i] = new; return True\<close>
  of the \<open>update_*\<close> methods: the first match is replaced.
\<close>
fun replace_first :: "('a \<Rightarrow> bool) \<Rightarrow> 'a \<Rightarrow> 'a list \<Rightarrow> 'a list \<times> bool" where
  "replace_first P y [] = ([], False)"
| "replace_first P y (x # xs) =
     (if P x then (y # xs, True)
      else (case replace_first P y xs of (xs', r) \<Rightarrow> (x # xs', r)))"

definition add_patient :: "MedicalDatabase \<Rightarrow> Patient \<Rightarrow> MedicalDatabase \<times> bool" where
  "add_patient db patient =
     (if \<exists>p \<in> set (patients db). pat_id p = pat_id patient then (db, False)
      else (db\<lparr>patients := patients db @ [patient]\<rparr>, True))"

definition get_patient :: "MedicalDatabase \<Rightarrow> string \<Rightarrow> Patient option" where
  "get_patient db pid = find (\<lambda>p. pat_id p = pid) (patients db)"

definition update_patient :: "MedicalDatabase \<Rightarrow> Patient \<Rightarrow> MedicalDatabase \<times> bool" where
  "update_patient db patient =
     (case replace_first (\<lambda>p. pat_id p = pat_id patient) patient (patients db) of
        (ps, True) \<Rightarrow> (db\<lparr>patients := ps\<rparr>, True)
      | (ps, False) \<Rightarrow> (db, False))"

definition get_doctor :: "MedicalDatabase \<Rightarrow> string \<Rightarrow> Doctor option" where
  "get_doctor db did = find (\<lambda>d. doc_id d = did) (doctors db)"

definition add_appointment :: "MedicalDatabase \<Rightarrow> Appointment \<Rightarrow> MedicalDatabase \<times> bool" where
  "add_appointment db appointment =
     (if \<exists>a \<in> set (appointments db). appt_id a = appt_id appointment then (db, False)
      else (db\<lparr>appointments := appointments db @ [appointment]\<rparr>, True))"

definition get_appointment :: "MedicalDatabase \<Rightarrow> string \<Rightarrow> Appointment option" where
  "get_appointment db aid = find (\<lambda>a. appt_id a = aid) (appointments db)"

text \<open>
  \<open>get_appointments\<close>: a filter is applied only when its argument is truthy, so the
  empty string as \<open>doctor_id\<close> or \<open>patient_id\<close> filters nothing; a datetime is always
  truthy.
\<close>
definition truthy_str :: "string option \<Rightarrow> bool" where
  "truthy_str s = (case s of None \<Rightarrow> False | Some v \<Rightarrow> v \<noteq> [])"

definition get_appointments ::
  "MedicalDatabase \<Rightarrow> string option \<Rightarrow> string option \<Rightarrow> datetime option \<Rightarrow> datetime option
     \<Rightarrow> Appointment list" where
  "get_appointments db did pid start_date end_date =
     filter (\<lambda>a.
        \<not> (truthy_str did \<and> Some (doctor_id a) \<noteq> did) \<and>
        \<not> (truthy_str pid \<and> Some (patient_id a) \<noteq> pid) \<and>
        \<not> (case start_date of None \<Rightarrow> False | Some s \<Rightarrow> appointment_datetime a < s) \<and>
        \<not> (case end_date of None \<Rightarrow> False | Some e \<Rightarrow> appointment_datetime a > e))
       (appointments db)"

definition update_appointment :: "MedicalDatabase \<Rightarrow> Appointment \<Rightarrow> MedicalDatabase \<times> bool" where
  "update_appointment db appointment =
     (case replace_first (\<lambda>a. appt_id a = appt_id appointment) appointment (appointments db) of
        (as, True) \<Rightarrow> (db\<lparr>appointments := as\<rparr>, True)
      | (as, False) \<Rightarrow> (db, False))"

definition add_no_show_prediction ::
  "MedicalDatabase \<Rightarrow> NoShowPrediction \<Rightarrow> MedicalDatabase \<times> bool" where
  "add_no_show_prediction db prediction =
     (db\<lparr>predictions :=
        filter (\<lambda>p. pred_appointment_id p \<noteq> pred_appointment_id prediction) (predictions db)
          @ [prediction]\<rparr>, True)"

definition get_no_show_prediction :: "MedicalDatabase \<Rightarrow> string \<Rightarrow> NoShowPrediction option" where
  "get_no_show_prediction db aid = find (\<lambda>p. pred_appointment_id p = aid) (predictions db)"

section \<open>Availability (scheduling_service.py, get_available_slots)\<close>

text \<open>\<open>datetime.combine(date_obj, t)\<close> for a time of day given as hour and minute.\<close>
definition combine :: "int \<Rightarrow> nat \<times> nat \<Rightarrow> datetime" where
  "combine d t = d * us_per_day + (int (fst t) * 60 + int (snd t)) * 60 * us_per_second"

text \<open>The inner \<open>for occupied_slot in occupied_slots\<close> loop with its \<open>break\<close>.\<close>
definition slot_conflict :: "datetime \<Rightarrow> datetime list \<Rightarrow> int \<Rightarrow> bool" where
  "slot_conflict current_time occupied_slots duration_minutes =
     (\<exists>occupied_slot \<in> set occupied_slots.
        \<bar>total_seconds (current_time - occupied_slot)\<bar> < real_of_int (duration_minutes * 60))"

text \<open>
  The \<open>while\<close> loop that walks the candidates. It does not end when the duration is zero
  or negative and the first candidate fits, so the result is optional: \<open>None\<close> is a run
  that never returns.
\<close>
partial_function (option) slots_loop ::
  "datetime \<Rightarrow> datetime \<Rightarrow> int \<Rightarrow> datetime list \<Rightarrow> datetime list \<Rightarrow> datetime list option" where
  "slots_loop current_time end_of_day duration_minutes occupied_slots available_slots =
     (if current_time + timedelta_minutes duration_minutes \<le> end_of_day
      then slots_loop (current_time + timedelta_minutes duration_minutes) end_of_day
             duration_minutes occupied_slots
             (if slot_conflict current_time occupied_slots duration_minutes
              then available_slots else available_slots @ [current_time])
      else Some available_slots)"

declare slots_loop.simps [code]

definition occupies :: "Appointment \<Rightarrow> bool" where
  "occupies a = (status a \<in> {SCHEDULED, CONFIRMED})"

definition get_available_slots ::
  "MedicalDatabase \<Rightarrow> string \<Rightarrow> datetime \<Rightarrow> int \<Rightarrow> datetime list option" where
  "get_available_slots db did date duration_minutes =
     (case get_doctor db did of
        None \<Rightarrow> Some []
      | Some doctor \<Rightarrow>
          (case working_hours doctor (day_name date) of
             None \<Rightarrow> Some []
           | Some wh \<Rightarrow>
               (let start_of_day = combine (date_of date) (wh_start wh);
                    end_of_day = combine (date_of date) (wh_end wh);
                    existing_appointments =
                      get_appointments db (Some did) None (Some start_of_day) (Some end_of_day);
                    occupied_slots =
                      map appointment_datetime (filter occupies existing_appointments)
                in slots_loop start_of_day end_of_day duration_minutes occupied_slots [])))"

section \<open>Booking state machine (scheduling_service.py)\<close>

text \<open>
  Every exception the two services raise is a \<open>ValueError\<close>; the message tells them apart.
\<close>
datatype py_error = ValueError string

text \<open>
  \<open>register_patient\<close>. The identifier \<open>str(uuid.uuid4())\<close> and the clock reading
  \<open>datetime.now()\<close> are arguments of the model.
\<close>
definition register_patient where
  "register_patient db fname lname dob ph em addr emergency provider number pref pnotes new_id now =
     (let patient = \<lparr> pat_id = new_id, first_name = fname, last_name = lname,
            date_of_birth = dob, phone = ph, email = em, address = addr,
            emergency_contact = emergency, insurance_provider = provider,
            insurance_number = number, insurance_status = PENDING, pat_status = ACTIVE,
            no_show_count = 0, last_appointment = None, preferred_communication = pref,
            pat_notes = pnotes, pat_created_at = now \<rparr>
      in case add_patient db patient of
           (db', True) \<Rightarrow> Inr (new_id, db')
         | (db', False) \<Rightarrow>
             Inl (ValueError ''Failed to register patient - patient may already exist''))"

text \<open>
  \<open>book_appointment\<close>. \<open>None\<close> is a call that never returns (the availability walk
  does not end); \<open>Some (Inl e)\<close> is a raised exception.
\<close>
definition book_appointment ::
  "MedicalDatabase \<Rightarrow> string \<Rightarrow> string \<Rightarrow> datetime \<Rightarrow> string \<Rightarrow> string \<Rightarrow> string \<Rightarrow> datetime
     \<Rightarrow> (py_error + string \<times> MedicalDatabase) option" where
  "book_appointment db pid did appointment_dt appt_type notes_text new_id now =
     (case get_patient db pid of
        None \<Rightarrow> Some (Inl (ValueError ''Patient not found''))
      | Some patient \<Rightarrow>
          (case get_doctor db did of
             None \<Rightarrow> Some (Inl (ValueError ''Doctor not found''))
           | Some doctor \<Rightarrow>
               (case get_available_slots db did appointment_dt (appointment_duration doctor) of
                  None \<Rightarrow> None
                | Some available_slots \<Rightarrow>
                    if appointment_dt \<notin> set available_slots
                    then Some (Inl (ValueError ''Appointment slot not available''))
                    else
                      (let appointment = \<lparr> appt_id = new_id, patient_id = pid,
                             doctor_id = did, appointment_datetime = appointment_dt,
                             duration = appointment_duration doctor, status = SCHEDULED,
                             appointment_type = appt_type, appt_notes = notes_text,
                             insurance_verified = False, reminder_sent = False,
                             confirmation_sent = False, created_at = now, updated_at = now \<rparr>
                       in case add_appointment db appointment of
                            (db', True) \<Rightarrow> Some (Inr (new_id, db'))
                          | (db', False) \<Rightarrow>
                              Some (Inl (ValueError ''Failed to book appointment''))))))"

definition reschedule_appointment ::
  "MedicalDatabase \<Rightarrow> string \<Rightarrow> datetime \<Rightarrow> datetime \<Rightarrow> (MedicalDatabase \<times> bool) option" where
  "reschedule_appointment db aid new_datetime now =
     (case get_appointment db aid of
        None \<Rightarrow> Some (db, False)
      | Some appointment \<Rightarrow>
          (case get_available_slots db (doctor_id appointment) new_datetime (duration appointment) of
             None \<Rightarrow> None
           | Some available_slots \<Rightarrow>
               if new_datetime \<notin> set available_slots then Some (db, False)
               else Some (update_appointment db
                      (appointment\<lparr>appointment_datetime := new_datetime, status := RESCHEDULED,
                                    updated_at := now\<rparr>))))"

definition cancel_appointment ::
  "MedicalDatabase \<Rightarrow> string \<Rightarrow> string \<Rightarrow> datetime \<Rightarrow> MedicalDatabase \<times> bool" where
  "cancel_appointment db aid reason now =
     (case get_appointment db aid of
        None \<Rightarrow> (db, False)
      | Some appointment \<Rightarrow>
          update_appointment db
            (appointment\<lparr>status := CANCELLED,
               appt_notes := appt_notes appointment @
                 (if reason \<noteq> [] then [CHR 0x0A] @ ''Cancelled: '' @ reason
                  else [CHR 0x0A] @ ''Cancelled''),
               updated_at := now\<rparr>))"

definition mark_no_show :: "MedicalDatabase \<Rightarrow> string \<Rightarrow> datetime \<Rightarrow> MedicalDatabase \<times> bool" where
  "mark_no_show db aid now =
     (case get_appointment db aid of
        None \<Rightarrow> (db, False)
      | Some appointment \<Rightarrow>
          (let appointment' = appointment\<lparr>status := NO_SHOW, updated_at := now\<rparr>;
               db' = (case get_patient db (patient_id appointment') of
                        None \<Rightarrow> db
                      | Some patient \<Rightarrow>
                          (let patient' = patient\<lparr>no_show_count := no_show_count patient + 1\<rparr>;
                               patient'' = (if no_show_count patient' \<ge> 3
                                            then patient'\<lparr>pat_status := HIGH_RISK\<rparr>
                                            else patient')
                           in fst (update_patient db patient'')))
           in update_appointment db' appointment'))"

definition complete_appointment ::
  "MedicalDatabase \<Rightarrow> string \<Rightarrow> string \<Rightarrow> datetime \<Rightarrow> MedicalDatabase \<times> bool" where
  "complete_appointment db aid notes_text now =
     (case get_appointment db aid of
        None \<Rightarrow> (db, False)
      | Some appointment \<Rightarrow>
          (let appointment' = appointment\<lparr>status := COMPLETED,
                 appt_notes := appt_notes appointment @
                   (if notes_text \<noteq> [] then [CHR 0x0A] @ ''Completed: '' @ notes_text
                    else [CHR 0x0A] @ ''Completed''),
                 updated_at := now\<rparr>;
               db' = (case get_patient db (patient_id appointment') of
                        None \<Rightarrow> db
                      | Some patient \<Rightarrow>
                          fst (update_patient db
                                 (patient\<lparr>last_appointment :=
                                    Some (appointment_datetime appointment')\<rparr>)))
           in update_appointment db' appointment'))"

text \<open>The mutating operations of the scheduling service, as one step function.\<close>
datatype operation =
    Register string string datetime string string string string string string string string string
  | Book string string datetime string string string
  | Reschedule string datetime
  | Cancel string string
  | MarkNoShow string
  | Complete string string

fun exec :: "MedicalDatabase \<Rightarrow> operation \<Rightarrow> datetime \<Rightarrow> MedicalDatabase option" where
  "exec db (Register fname lname dob ph em addr emergency provider number pref pnotes new_id) now =
     (case register_patient db fname lname dob ph em addr emergency provider number pref pnotes
             new_id now of
        Inl e \<Rightarrow> Some db | Inr (i, db') \<Rightarrow> Some db')"
| "exec db (Book pid did dt appt_type notes_text new_id) now =
     (case book_appointment db pid did dt appt_type notes_text new_id now of
        None \<Rightarrow> None | Some (Inl e) \<Rightarrow> Some db | Some (Inr (i, db')) \<Rightarrow> Some db')"
| "exec db (Reschedule aid dt) now =
     (case reschedule_appointment db aid dt now of None \<Rightarrow> None | Some (db', r) \<Rightarrow> Some db')"
| "exec db (Cancel aid reason) now = Some (fst (cancel_appointment db aid reason now))"
| "exec db (MarkNoShow aid) now = Some (fst (mark_no_show db aid now))"
| "exec db (Complete aid notes_text) now = Some (fst (complete_appointment db aid notes_text now))"

section \<open>Risk scorer (no_show_predictor.py)\<close>

text \<open>
  The sub-scores are floats: the literals are rounded (\<open>round64 0.3\<close> is the float that
  Python reads for \<open>0.3\<close>), and so is every sum, product and quotient, in the order in
  which the code evaluates them.
\<close>
definition calculate_historical_risk :: "MedicalDatabase \<Rightarrow> Patient \<Rightarrow> datetime \<Rightarrow> real" where
  "calculate_historical_risk db patient now =
     (let appts = get_appointments db None (Some (pat_id patient)) None None
      in if length appts < 2 then round64 0.3
         else
           (let no_shows = length (filter (\<lambda>a. status a = NO_SHOW) appts);
                total_appointments = length appts;
                no_show_rate = fdiv (real no_shows) (real total_appointments);
                recent_appointments =
                  filter (\<lambda>a. appointment_datetime a > now - timedelta_days 90) appts;
                no_show_rate' =
                  (if recent_appointments \<noteq> [] then
                     (let recent_no_shows =
                            length (filter (\<lambda>a. status a = NO_SHOW) recent_appointments);
                          recent_no_show_rate =
                            fdiv (real recent_no_shows) (real (length recent_appointments))
                      in fadd (fmul no_show_rate (round64 0.3))
                              (fmul recent_no_show_rate (round64 0.7)))
                   else no_show_rate)
            in min 1 (fmul no_show_rate' 2)))"

text \<open>
  The four blocks of \<open>_calculate_timing_risk\<close>, each the amount it adds to \<open>risk\<close> (0 when
  no branch of the block runs; adding the float 0 changes nothing).
\<close>

definition day_of_week_risk :: "nat \<Rightarrow> real" where
  "day_of_week_risk wd =
     (if wd = 0 then round64 0.1 else if wd = 4 then round64 0.15
      else if wd \<ge> 5 then round64 0.2 else 0)"

definition time_of_day_risk :: "int \<Rightarrow> real" where
  "time_of_day_risk h =
     (if h < 9 \<or> h > 16 then round64 0.1 else if h = 12 then round64 0.05 else 0)"

definition advance_booking_risk :: "int \<Rightarrow> real" where
  "advance_booking_risk days_advance =
     (if days_advance > 30 then round64 0.1 else if days_advance > 60 then round64 0.2 else 0)"

definition last_minute_risk :: "int \<Rightarrow> real" where
  "last_minute_risk days_advance = (if days_advance < 1 then round64 0.15 else 0)"

definition calculate_timing_risk :: "Appointment \<Rightarrow> real" where
  "calculate_timing_risk appointment =
     (let appointment_time = appointment_datetime appointment;
          days_advance = days (appointment_time - created_at appointment)
      in min 1 (fadd (fadd (fadd (fadd 0 (day_of_week_risk (weekday appointment_time)))
                                 (time_of_day_risk (hour appointment_time)))
                           (advance_booking_risk days_advance))
                     (last_minute_risk days_advance)))"

text \<open>\<open>str.strip()\<close> and \<open>str.lower()\<close>, on ASCII.\<close>

definition is_space :: "char \<Rightarrow> bool" where
  "is_space c = (c \<in> set [CHR 0x09, CHR 0x0A, CHR 0x0B, CHR 0x0C, CHR 0x0D,
                           CHR 0x1C, CHR 0x1D, CHR 0x1E, CHR 0x1F, CHR 0x20])"

definition strip :: "string \<Rightarrow> string" where
  "strip s = rev (dropWhile is_space (rev (dropWhile is_space s)))"

definition lower_char :: "char \<Rightarrow> char" where
  "lower_char c =
     (if (65::nat) \<le> of_char c \<and> of_char c \<le> (90::nat) then char_of (of_char c + (32::nat)) else c)"

definition lower :: "string \<Rightarrow> string" where
  "lower s = map lower_char s"

definition calculate_demographic_risk :: "Patient \<Rightarrow> datetime \<Rightarrow> real" where
  "calculate_demographic_risk patient now =
     (let age = fdiv (real_of_int (days (now - date_of_birth patient))) 365.25;
          r1 = (if age < 25 then round64 0.2 else if age < 35 then round64 0.1
                else if age > 65 then - round64 0.1 else 0);
          r2 = (if preferred_communication patient = ''email'' then round64 0.05 else 0);
          r3 = (if pat_status patient = HIGH_RISK then round64 0.3 else 0);
          r4 = (if emergency_contact patient = [] \<or> length (strip (emergency_contact patient)) < 5
                then round64 0.1 else 0)
      in max 0 (min 1 (fadd (fadd (fadd (fadd 0 r1) r2) r3) r4)))"

definition calculate_financial_risk :: "Patient \<Rightarrow> Appointment \<Rightarrow> real" where
  "calculate_financial_risk patient appointment =
     (let r1 = (if \<not> insurance_verified appointment then round64 0.2 else 0);
          unreliable_providers = [''medicaid'', ''medicare'', ''self_pay''];
          r2 = (if lower (insurance_provider patient) \<in> set unreliable_providers
                then round64 0.1 else 0);
          r3 = (if length (insurance_number patient) < 5 then round64 0.15 else 0)
      in min 1 (fadd (fadd (fadd 0 r1) r2) r3))"

definition predict_no_show_risk ::
  "MedicalDatabase \<Rightarrow> string \<Rightarrow> string \<Rightarrow> datetime
     \<Rightarrow> py_error + NoShowPrediction \<times> MedicalDatabase" where
  "predict_no_show_risk db pid aid now =
     (case get_patient db pid of
        None \<Rightarrow> Inl (ValueError ''Patient or appointment not found'')
      | Some patient \<Rightarrow>
          (case get_appointment db aid of
             None \<Rightarrow> Inl (ValueError ''Patient or appointment not found'')
           | Some appointment \<Rightarrow>
               (let historical_risk = calculate_historical_risk db patient now;
                    timing_risk = calculate_timing_risk appointment;
                    demographic_risk = calculate_demographic_risk patient now;
                    financial_risk = calculate_financial_risk patient appointment;
                    score = fadd (fadd (fadd (fadd 0 (fmul historical_risk (round64 0.4)))
                                             (fmul timing_risk (round64 0.25)))
                                       (fmul demographic_risk (round64 0.2)))
                                 (fmul financial_risk (round64 0.15));
                    factors =
                      (if historical_risk > round64 0.3
                       then [''High historical no-show rate''] else [])
                      @ (if timing_risk > round64 0.3
                         then [''Unfavorable appointment timing''] else [])
                      @ (if demographic_risk > round64 0.3
                         then [''Demographic risk factors''] else [])
                      @ (if financial_risk > round64 0.3
                         then [''Insurance/financial concerns''] else []);
                    prediction = \<lparr> pred_patient_id = pid, pred_appointment_id = aid,
                                   risk_score = max 0 (min 1 score), risk_factors = factors,
                                   prediction_date = now \<rparr>
                in Inr (prediction, fst (add_no_show_prediction db prediction)))))"

section \<open>Auxiliary notions used in the statements\<close>

text \<open>The candidates of a walk with a positive stride, as a list.\<close>
definition candidates :: "datetime \<Rightarrow> datetime \<Rightarrow> int \<Rightarrow> datetime list" where
  "candidates s e d =
     map (\<lambda>k. s + int k * timedelta_minutes d) [0 ..< nat ((e - s) div timedelta_minutes d)]"

text \<open>The list \<open>occupied_slots\<close> that \<open>get_available_slots\<close> builds for a window.\<close>
definition occupied_slots_of :: "MedicalDatabase \<Rightarrow> string \<Rightarrow> datetime \<Rightarrow> datetime \<Rightarrow> datetime list" where
  "occupied_slots_of db did s e =
     map appointment_datetime
       (filter occupies (get_appointments db (Some did) None (Some s) (Some e)))"

text \<open>
  The patient invariant of the data model: the status is \<open>high_risk\<close> exactly when the
  no-show counter has reached 3.
\<close>
definition high_risk_inv :: "MedicalDatabase \<Rightarrow> bool" where
  "high_risk_inv db = (\<forall>p \<in> set (patients db). pat_status p = HIGH_RISK \<longleftrightarrow> 3 \<le> no_show_count p)"

section \<open>Concrete instances\<close>

text \<open>Day 738885 after 0001-01-01 is Monday 2024-01-01.\<close>
definition at_time :: "int \<Rightarrow> nat \<Rightarrow> nat \<Rightarrow> datetime" where
  "at_time d h m = combine d (h, m)"

definition ex_hours :: WorkingHours where
  "ex_hours = \<lparr> wh_start = (9, 0), wh_end = (17, 0) \<rparr>"

definition ex_doctor :: Doctor where
  "ex_doctor = \<lparr> doc_id = ''doc_001'', doc_first_name = ''Ada'', doc_last_name = ''Mills'',
       specialty = ''general'', doc_phone = ''555-0100'', doc_email = ''ada@clinic.example'',
       working_hours = [''monday'' \<mapsto> ex_hours, ''tuesday'' \<mapsto> ex_hours,
                        ''wednesday'' \<mapsto> ex_hours, ''thursday'' \<mapsto> ex_hours,
                        ''friday'' \<mapsto> ex_hours],
       appointment_duration = 30, max_patients_per_day = 20, is_active = True \<rparr>"

definition ex_patient :: Patient where
  "ex_patient = \<lparr> pat_id = ''pat_001'', first_name = ''Bo'', last_name = ''Lee'',
       date_of_birth = at_time 724275 0 0, phone = ''555-0101'', email = ''bo@mail.example'',
       address = ''1 Main St'', emergency_contact = ''Kim Lee 555-0102'',
       insurance_provider = ''Aetna'', insurance_number = ''AET123456'',
       insurance_status = PENDING, pat_status = ACTIVE, no_show_count = 0,
       last_appointment = None, preferred_communication = ''phone'', pat_notes = [],
       pat_created_at = at_time 738800 12 0 \<rparr>"

definition ex_appt :: "string \<Rightarrow> datetime \<Rightarrow> AppointmentStatus \<Rightarrow> datetime \<Rightarrow> Appointment" where
  "ex_appt aid dt st created =
     \<lparr> appt_id = aid, patient_id = ''pat_001'', doctor_id = ''doc_001'',
       appointment_datetime = dt, duration = 30, status = st, appointment_type = ''general'',
       appt_notes = [], insurance_verified = True, reminder_sent = False,
       confirmation_sent = False, created_at = created, updated_at = created \<rparr>"

definition ex_db :: MedicalDatabase where
  "ex_db = \<lparr> patients = [ex_patient], doctors = [ex_doctor], appointments = [],
             predictions = [] \<rparr>"

definition ex_now :: datetime where
  "ex_now = at_time 738885 12 0"

text \<open>Booked on Tuesday 2024-01-02 for Wednesday 2024-03-06, 10:00: 64 days ahead.\<close>
definition ex_appt_far :: Appointment where
  "ex_appt_far = ex_appt ''apt_far'' (at_time 738950 10 0) SCHEDULED (at_time 738886 10 0)"

text \<open>
  One appointment ten days before \<open>ex_now\<close> (completed) and one eight days after it
  (scheduled), both of patient \<open>pat_001\<close>.
\<close>
definition ex_db_history :: MedicalDatabase where
  "ex_db_history = ex_db\<lparr>appointments :=
      [ex_appt ''apt_1'' (at_time 738875 10 0) COMPLETED (at_time 738870 9 0),
       ex_appt ''apt_2'' (at_time 738893 10 0) SCHEDULED (at_time 738884 9 0)]\<rparr>"

text \<open>A patient whose age in days is 9131 at noon of day 738885 and 9132 a day later.\<close>
definition ex_patient_young :: Patient where
  "ex_patient_young = ex_patient\<lparr>pat_id := ''pat_002'', date_of_birth := at_time 729754 0 0\<rparr>"

definition ex_db_young :: MedicalDatabase where
  "ex_db_young = \<lparr> patients = [ex_patient_young], doctors = [ex_doctor],
       appointments = [(ex_appt ''apt_9'' (at_time 738893 10 0) SCHEDULED (at_time 738884 9 0))
                          \<lparr>patient_id := ''pat_002''\<rparr>],
       predictions = [] \<rparr>"

text \<open>The no-show fraction of a list of appointments, as the float the code computes.\<close>
definition no_show_fraction :: "Appointment list \<Rightarrow> real" where
  "no_show_fraction as =
     fdiv (real (length (filter (\<lambda>a. status a = NO_SHOW) as))) (real (length as))"

text \<open>
  The appointments of a patient that lie before the clock reading: the patient's past
  appointments, in the sense of the specification.
\<close>
definition past_appointments :: "MedicalDatabase \<Rightarrow> Patient \<Rightarrow> datetime \<Rightarrow> Appointment list" where
  "past_appointments db patient now =
     filter (\<lambda>a. appointment_datetime a < now)
       (get_appointments db None (Some (pat_id patient)) None None)"

text \<open>
  A missed appointment 185 days before \<open>ex_now\<close>, a completed one ten days before it and a
  scheduled one eight days after it, all of patient \<open>pat_001\<close>.
\<close>
definition ex_db_missed :: MedicalDatabase where
  "ex_db_missed = ex_db\<lparr>appointments :=
      [ex_appt ''apt_0'' (at_time 738700 10 0) NO_SHOW (at_time 738690 9 0),
       ex_appt ''apt_1'' (at_time 738875 10 0) COMPLETED (at_time 738870 9 0),
       ex_appt ''apt_2'' (at_time 738893 10 0) SCHEDULED (at_time 738884 9 0)]\<rparr>"

text \<open>
  One scheduled appointment of patient \<open>pat_001\<close> with doctor \<open>doc_001\<close>, on Monday
  2024-01-01 at 10:00.
\<close>
definition ex_db_booked :: MedicalDatabase where
  "ex_db_booked = ex_db\<lparr>appointments :=
      [ex_appt ''apt_1'' (at_time 738885 10 0) SCHEDULED (at_time 738880 9 0)]\<rparr>"

text \<open>The same, the patient having missed two appointments already.\<close>
definition ex_db_two_missed :: MedicalDatabase where
  "ex_db_two_missed = ex_db_booked\<lparr>patients := [ex_patient\<lparr>no_show_count := 2\<rparr>]\<rparr>"

text \<open>
  A patient insured by Medicaid whose only appointment (a Tuesday at 10:00, booked nine
  days ahead) has no verified insurance.
\<close>
definition ex_patient_medicaid :: Patient where
  "ex_patient_medicaid = ex_patient\<lparr>pat_id := ''pat_003'', insurance_provider := ''Medicaid''\<rparr>"

definition ex_appt_medicaid :: Appointment where
  "ex_appt_medicaid =
     (ex_appt ''apt_5'' (at_time 738893 10 0) SCHEDULED (at_time 738884 9 0))
       \<lparr>patient_id := ''pat_003'', insurance_verified := False\<rparr>"

definition ex_db_medicaid :: MedicalDatabase where
  "ex_db_medicaid = \<lparr> patients = [ex_patient_medicaid], doctors = [ex_doctor],
       appointments = [ex_appt_medicaid], predictions = [] \<rparr>"

section \<open>Facts about the candidate walk\<close>

lemma timedelta_minutes_pos: "0 < d \<Longrightarrow> 0 < timedelta_minutes d"
  by (simp add: timedelta_minutes_def us_per_second_def)

lemma slots_loop_eq_aux:
  assumes "0 < d"
  shows "nat ((e - s) div timedelta_minutes d) = n \<Longrightarrow>
         slots_loop s e d occ acc =
           Some (acc @ filter (\<lambda>c. \<not> slot_conflict c occ d)
                         (map (\<lambda>k. s + int k * timedelta_minutes d) [0 ..< n]))"
proof (induction n arbitrary: s acc)
  case 0
  have pos: "0 < timedelta_minutes d" using assms by (rule timedelta_minutes_pos)
  from 0 have "\<not> 0 < (e - s) div timedelta_minutes d" by simp
  then have "\<not> timedelta_minutes d \<le> e - s"
    using pos_imp_zdiv_pos_iff [OF pos, of "e - s"] by simp
  then have "\<not> s + timedelta_minutes d \<le> e" by simp
  then show ?case by (subst slots_loop.simps) simp
next
  case (Suc n)
  let ?t = "timedelta_minutes d"
  have pos: "0 < ?t" using assms by (rule timedelta_minutes_pos)
  from Suc.prems have q: "(e - s) div ?t = int n + 1" by linarith
  then have "0 < (e - s) div ?t" by simp
  then have "?t \<le> e - s"
    using pos_imp_zdiv_pos_iff [OF pos, of "e - s"] by simp
  then have ge: "s + ?t \<le> e" by simp
  have "e - s = (e - (s + ?t)) + ?t" by simp
  then have "(e - s) div ?t = (e - (s + ?t)) div ?t + 1"
    using pos div_add_self2 [of ?t "e - (s + ?t)"] by simp
  with q have n': "nat ((e - (s + ?t)) div ?t) = n" by simp
  have up: "[0 ..< Suc n] = 0 # map Suc [0 ..< n]"
    by (simp add: upt_conv_Cons map_Suc_upt del: upt_Suc)
  have shift: "map (\<lambda>k. s + int k * ?t) (map Suc [0 ..< n])
                 = map (\<lambda>k. s + ?t + int k * ?t) [0 ..< n]"
    by (simp add: algebra_simps)
  have step: "slots_loop s e d occ acc =
                slots_loop (s + ?t) e d occ (if slot_conflict s occ d then acc else acc @ [s])"
    using ge by (subst slots_loop.simps) simp
  show ?case
    unfolding step Suc.IH [OF n'] up list.map shift [symmetric]
    by simp
qed

lemma slots_loop_eq:
  "0 < d \<Longrightarrow>
   slots_loop s e d occ [] = Some (filter (\<lambda>c. \<not> slot_conflict c occ d) (candidates s e d))"
  using slots_loop_eq_aux [of d e s _ occ "[]"] by (simp add: candidates_def)

lemma round64_zero: "round64 0 = 0"
  by (simp add: round64_def round_half_even_def)

lemma slot_conflict_self:
  assumes "0 < d" and "t \<in> set occ"
  shows "slot_conflict t occ d"
  unfolding slot_conflict_def
proof (rule bexI [OF _ assms(2)])
  show "\<bar>total_seconds (t - t)\<bar> < real_of_int (d * 60)"
    using assms(1) by (simp add: total_seconds_def fdiv_def round64_zero)
qed

lemma slot_conflict_mono:
  "set occ' \<subseteq> set occ \<Longrightarrow> slot_conflict t occ' d \<Longrightarrow> slot_conflict t occ d"
  by (auto simp: slot_conflict_def)

lemma slots_loop_nonpos_aux:
  "slots_loop s e d occ acc = Some y \<Longrightarrow>
   timedelta_minutes d \<le> 0 \<longrightarrow> \<not> s + timedelta_minutes d \<le> e"
proof (rule slots_loop.raw_induct
    [where P = "\<lambda>s e d occ acc y. timedelta_minutes d \<le> 0 \<longrightarrow> \<not> s + timedelta_minutes d \<le> e"])
  fix f :: "int \<Rightarrow> int \<Rightarrow> int \<Rightarrow> int list \<Rightarrow> int list \<Rightarrow> int list option"
    and s e d :: int and occ acc y :: "int list"
  assume IH: "\<And>s e d occ acc y. f s e d occ acc = Some y \<Longrightarrow>
                 timedelta_minutes d \<le> 0 \<longrightarrow> \<not> s + timedelta_minutes d \<le> e"
    and eq: "(if s + timedelta_minutes d \<le> e
              then f (s + timedelta_minutes d) e d occ
                     (if slot_conflict s occ d then acc else acc @ [s])
              else Some acc) = Some y"
  show "timedelta_minutes d \<le> 0 \<longrightarrow> \<not> s + timedelta_minutes d \<le> e"
  proof (intro impI notI)
    assume neg: "timedelta_minutes d \<le> 0" and le: "s + timedelta_minutes d \<le> e"
    from eq le have "f (s + timedelta_minutes d) e d occ
             (if slot_conflict s occ d then acc else acc @ [s]) = Some y" by simp
    from IH [OF this] neg have "\<not> s + timedelta_minutes d + timedelta_minutes d \<le> e" by simp
    with le neg show False by simp
  qed
qed

lemma slots_loop_nonpos:
  assumes "d \<le> 0" and "slots_loop s e d occ [] = Some xs"
  shows "xs = []"
proof -
  have "timedelta_minutes d \<le> 0"
    using assms(1) by (simp add: timedelta_minutes_def us_per_second_def)
  with slots_loop_nonpos_aux [OF assms(2)] have "\<not> s + timedelta_minutes d \<le> e" by simp
  with assms(2) show ?thesis by (subst (asm) slots_loop.simps) simp
qed

lemma candidates_member:
  assumes "0 < d" and "t \<in> set (candidates s e d)"
  shows "s \<le> t \<and> t + timedelta_minutes d \<le> e \<and> (\<exists>k\<ge>0. t = s + k * timedelta_minutes d)"
proof -
  let ?t = "timedelta_minutes d"
  have pos: "0 < ?t" using assms(1) by (rule timedelta_minutes_pos)
  from assms(2) obtain k where k: "k < nat ((e - s) div ?t)" and t: "t = s + int k * ?t"
    by (auto simp: candidates_def)
  from k have "int k + 1 \<le> (e - s) div ?t" by linarith
  then have "(int k + 1) * ?t \<le> ((e - s) div ?t) * ?t"
    using pos by (simp add: mult_right_mono)
  also have "\<dots> \<le> e - s"
    using pos div_mult_mod_eq [of "e - s" ?t] pos_mod_sign [of ?t "e - s"] by linarith
  finally have "t + ?t \<le> e" using t by (simp add: algebra_simps)
  moreover have "s \<le> t" using t pos by simp
  moreover have "\<exists>k\<ge>0. t = s + k * ?t" using t by (intro exI [of _ "int k"]) simp
  ultimately show ?thesis by simp
qed

lemma candidates_complete:
  assumes "0 < d" and "0 \<le> k" and "s + k * timedelta_minutes d + timedelta_minutes d \<le> e"
  shows "s + k * timedelta_minutes d \<in> set (candidates s e d)"
proof -
  let ?t = "timedelta_minutes d"
  have pos: "0 < ?t" using assms(1) by (rule timedelta_minutes_pos)
  have "(k + 1) * ?t \<le> e - s" using assms(3) by (simp add: algebra_simps)
  then have "((k + 1) * ?t) div ?t \<le> (e - s) div ?t" by (rule zdiv_mono1) (rule pos)
  then have "k + 1 \<le> (e - s) div ?t" using pos by simp
  then have "nat k < nat ((e - s) div ?t)" using assms(2) by linarith
  then have "s + int (nat k) * ?t \<in> set (candidates s e d)"
    by (auto simp: candidates_def intro!: image_eqI [where x = "nat k"])
  then show ?thesis using assms(2) by simp
qed

lemma candidates_sorted: "0 < d \<Longrightarrow> sorted_wrt (<) (candidates s e d)"
proof -
  assume "0 < d"
  then have pos: "0 < timedelta_minutes d" by (rule timedelta_minutes_pos)
  have "sorted_wrt (\<lambda>i j. s + int i * timedelta_minutes d < s + int j * timedelta_minutes d)
          [0 ..< nat ((e - s) div timedelta_minutes d)]"
    by (rule sorted_wrt_mono_rel [OF _ sorted_wrt_upt]) (use pos in simp)
  then show ?thesis by (simp add: candidates_def sorted_wrt_map)
qed

lemma get_available_slots_window:
  assumes "get_doctor db did = Some doctor" and "working_hours doctor (day_name date) = Some wh"
  shows "get_available_slots db did date d =
           slots_loop (combine (date_of date) (wh_start wh)) (combine (date_of date) (wh_end wh)) d
             (occupied_slots_of db did (combine (date_of date) (wh_start wh))
                (combine (date_of date) (wh_end wh))) []"
  using assms by (simp add: get_available_slots_def occupied_slots_of_def Let_def)

lemma get_available_slots_pos:
  assumes "get_doctor db did = Some doctor" and "working_hours doctor (day_name date) = Some wh"
    and "0 < d"
  shows "get_available_slots db did date d =
           Some (filter (\<lambda>c. \<not> slot_conflict c
                    (occupied_slots_of db did (combine (date_of date) (wh_start wh))
                       (combine (date_of date) (wh_end wh))) d)
                  (candidates (combine (date_of date) (wh_start wh))
                     (combine (date_of date) (wh_end wh)) d))"
  using assms by (simp add: get_available_slots_window slots_loop_eq)

section \<open>Claims about the availability engine\<close>

text \<open>
  C1. For a doctor with a working-hours window on the weekday of the queried date and any
  slot duration \<open>d\<close>: whenever \<open>get_available_slots\<close> returns, every returned
  timestamp lies at or after the window start, ends (start + d) at or before the window end,
  is the window start plus a non-negative multiple of \<open>d\<close>, and the sequence is strictly
  increasing. The call does return for every positive \<open>d\<close> (for \<open>d \<le> 0\<close> the loop
  of the source either is not entered or never ends).
\<close>
theorem C1_slots_in_window_on_grid_increasing:
  assumes "get_doctor db did = Some doctor" and "working_hours doctor (day_name date) = Some wh"
  shows "(0 < d \<longrightarrow> (\<exists>slots. get_available_slots db did date d = Some slots)) \<and>
         (\<forall>slots. get_available_slots db did date d = Some slots \<longrightarrow>
            (\<forall>t \<in> set slots.
               combine (date_of date) (wh_start wh) \<le> t \<and>
               t + timedelta_minutes d \<le> combine (date_of date) (wh_end wh) \<and>
               (\<exists>k\<ge>0. t = combine (date_of date) (wh_start wh) + k * timedelta_minutes d)) \<and>
            sorted_wrt (<) slots)"
proof (cases "0 < d")
  case True
  note eq = get_available_slots_pos [OF assms True]
  show ?thesis
    unfolding eq using True candidates_member [OF True] candidates_sorted [OF True]
    by (auto intro: sorted_wrt_filter)
next
  case False
  then have "d \<le> 0" by simp
  then have "slots = []"
    if "slots_loop (combine (date_of date) (wh_start wh)) (combine (date_of date) (wh_end wh)) d
          (occupied_slots_of db did (combine (date_of date) (wh_start wh))
             (combine (date_of date) (wh_end wh))) [] = Some slots" for slots
    using that by (rule slots_loop_nonpos)
  then show ?thesis
    unfolding get_available_slots_window [OF assms] using False by auto
qed

text \<open>
  The scenario of the specification: Monday, 09:00 to 17:00, 30-minute slots, no
  appointment: 16 slots from 09:00 to 16:30.
\<close>
lemma ex_monday_slots:
  "get_available_slots ex_db ''doc_001'' (at_time 738885 10 15) 30 =
     Some (map (\<lambda>k. at_time 738885 9 0 + k * timedelta_minutes 30) [0,1,2,3,4,5,6,7,8,9,10,11,12,13,14,15])"
  by (simp add: get_available_slots_def get_doctor_def ex_db_def ex_doctor_def day_name_def
      weekday_def date_of_def at_time_def combine_def us_per_day_def us_per_second_def ex_hours_def
      get_appointments_def slots_loop.simps timedelta_minutes_def slot_conflict_def)

theorem C1_witness:
  "get_doctor ex_db ''doc_001'' = Some ex_doctor \<and>
   working_hours ex_doctor (day_name (at_time 738885 10 15)) = Some ex_hours \<and>
   (\<exists>slots. get_available_slots ex_db ''doc_001'' (at_time 738885 10 15) 30 = Some slots \<and>
      (\<forall>t \<in> set slots.
         combine (date_of (at_time 738885 10 15)) (wh_start ex_hours) \<le> t \<and>
         t + timedelta_minutes 30 \<le> combine (date_of (at_time 738885 10 15)) (wh_end ex_hours) \<and>
         (\<exists>k\<ge>0. t = combine (date_of (at_time 738885 10 15)) (wh_start ex_hours)
                        + k * timedelta_minutes 30)) \<and>
      sorted_wrt (<) slots)"
proof -
  have h1: "get_doctor ex_db ''doc_001'' = Some ex_doctor"
    by (simp add: get_doctor_def ex_db_def ex_doctor_def)
  have h2: "working_hours ex_doctor (day_name (at_time 738885 10 15)) = Some ex_hours"
    by (simp add: ex_doctor_def day_name_def weekday_def date_of_def at_time_def combine_def
        us_per_day_def us_per_second_def)
  have pos: "(0::int) < 30" by simp
  from C1_slots_in_window_on_grid_increasing [OF h1 h2, of 30] pos h1 h2 show ?thesis
    by blast
qed

lemmas time_defs = at_time_def combine_def us_per_day_def us_per_second_def days_def
  date_of_def weekday_def hour_def timedelta_days_def timedelta_minutes_def

section \<open>Facts about binary64 rounding\<close>

text \<open>
  Within a binade the rounding is the rounding of the scaled number to an integer: for
  \<open>2 ^ 52 \<le> \<bar>x\<bar> * 2 ^ j < 2 ^ 53\<close> the unit in the last place of \<open>x\<close> is \<open>1 / 2 ^ j\<close>.
\<close>
lemma round64_eval:
  assumes lo: "2 ^ 52 \<le> \<bar>x\<bar> * 2 ^ j" and hi: "\<bar>x\<bar> * 2 ^ j < 2 ^ 53" and j: "j \<le> emin"
  shows "round64 x = of_int (round_half_even (x * 2 ^ j)) / 2 ^ j"
proof -
  define m where "m = emin - j"
  have split: "(2::real) ^ emin = 2 ^ j * 2 ^ m"
    using j by (simp add: m_def flip: power_add)
  have eq: "\<bar>x\<bar> * 2 ^ emin = (\<bar>x\<bar> * 2 ^ j) * 2 ^ m"
    by (simp add: split)
  have "(2::real) ^ (52 + m) \<le> \<bar>x\<bar> * 2 ^ emin"
    unfolding eq power_add using lo by (intro mult_right_mono) simp_all
  then have "real_of_int (2 ^ (52 + m)) \<le> \<bar>x\<bar> * 2 ^ emin" by simp
  then have n_lo: "2 ^ (52 + m) \<le> \<lfloor>\<bar>x\<bar> * 2 ^ emin\<rfloor>" by (subst le_floor_iff)
  have "\<bar>x\<bar> * 2 ^ emin < 2 ^ (53 + m)"
    unfolding eq power_add using hi by (intro mult_strict_right_mono) simp_all
  then have "\<bar>x\<bar> * 2 ^ emin < real_of_int (2 ^ (53 + m))" by simp
  then have n_hi: "\<lfloor>\<bar>x\<bar> * 2 ^ emin\<rfloor> < 2 ^ (53 + m)" by (subst floor_less_iff)
  have "bitlen \<lfloor>\<bar>x\<bar> * 2 ^ emin\<rfloor> \<le> int (53 + m)"
    unfolding bitlen_le_iff_power nat_int using n_hi by simp
  moreover have "int (53 + m) \<le> bitlen \<lfloor>\<bar>x\<bar> * 2 ^ emin\<rfloor>"
    unfolding bitlen_ge_iff_power nat_int using n_lo by simp
  ultimately have bl: "bitlen \<lfloor>\<bar>x\<bar> * 2 ^ emin\<rfloor> = int (53 + m)" by simp
  have k: "nat (bitlen \<lfloor>\<bar>x\<bar> * 2 ^ emin\<rfloor> - 53) = m" by (simp add: bl)
  have "x * 2 ^ emin / 2 ^ m = x * 2 ^ j" by (simp add: split)
  moreover have "real_of_int r * 2 ^ m / 2 ^ emin = real_of_int r / 2 ^ j" for r
    by (simp add: split)
  ultimately show ?thesis
    unfolding round64_def Let_def k by simp
qed

lemma fadd_zero_zero: "fadd 0 0 = 0"
  by (simp add: fadd_def round64_zero)

lemma fmul_zero_left: "fmul 0 y = 0"
  by (simp add: fmul_def round64_zero)

lemma fmul_zero_right: "fmul x 0 = 0"
  by (simp add: fmul_def round64_zero)

lemma fdiv_zero_left: "fdiv 0 y = 0"
  by (simp add: fdiv_def round64_zero)

text \<open>The values of the operations that the examples below go through.\<close>

lemma f64_01: "round64 (1 / 10) = 3602879701896397 / 36028797018963968"
  using round64_eval [of "1 / 10" 56]
  by (simp add: round_half_even_def emin_def)

lemma f64_02: "fadd 0 (3602879701896397 / 36028797018963968) = 3602879701896397 / 36028797018963968"
  using round64_eval [of "0 + (3602879701896397 / 36028797018963968)" 56]
  by (simp add: fadd_def round_half_even_def emin_def)

lemma f64_03: "fadd (3602879701896397 / 36028797018963968) 0 = 3602879701896397 / 36028797018963968"
  using round64_eval [of "(3602879701896397 / 36028797018963968) + 0" 56]
  by (simp add: fadd_def round_half_even_def emin_def)

lemma f64_04: "round64 (1 / 5) = 3602879701896397 / 18014398509481984"
  using round64_eval [of "1 / 5" 55]
  by (simp add: round_half_even_def emin_def)

lemma f64_05: "fadd (3602879701896397 / 36028797018963968) (3602879701896397 / 18014398509481984) = 1351079888211149 / 4503599627370496"
  using round64_eval [of "(3602879701896397 / 36028797018963968) + (3602879701896397 / 18014398509481984)" 54]
  by (simp add: fadd_def round_half_even_def emin_def)

lemma f64_06: "round64 (3 / 10) = 5404319552844595 / 18014398509481984"
  using round64_eval [of "3 / 10" 54]
  by (simp add: round_half_even_def emin_def)

lemma f64_07: "fdiv 14610 (1461 / 4) = 40"
  using round64_eval [of "14610 / (1461 / 4)" 47]
  by (simp add: fdiv_def round_half_even_def emin_def)

lemma f64_08: "fadd 0 (3602879701896397 / 18014398509481984) = 3602879701896397 / 18014398509481984"
  using round64_eval [of "0 + (3602879701896397 / 18014398509481984)" 55]
  by (simp add: fadd_def round_half_even_def emin_def)

lemma f64_09: "fadd (3602879701896397 / 18014398509481984) (3602879701896397 / 36028797018963968) = 1351079888211149 / 4503599627370496"
  using round64_eval [of "(3602879701896397 / 18014398509481984) + (3602879701896397 / 36028797018963968)" 54]
  by (simp add: fadd_def round_half_even_def emin_def)

lemma f64_10: "fadd (1351079888211149 / 4503599627370496) 0 = 1351079888211149 / 4503599627370496"
  using round64_eval [of "(1351079888211149 / 4503599627370496) + 0" 54]
  by (simp add: fadd_def round_half_even_def emin_def)

lemma f64_11: "round64 (2 / 5) = 3602879701896397 / 9007199254740992"
  using round64_eval [of "2 / 5" 54]
  by (simp add: round_half_even_def emin_def)

lemma f64_12: "fmul (5404319552844595 / 18014398509481984) (3602879701896397 / 9007199254740992) = 1080863910568919 / 9007199254740992"
  using round64_eval [of "(5404319552844595 / 18014398509481984) * (3602879701896397 / 9007199254740992)" 56]
  by (simp add: fmul_def round_half_even_def emin_def)

lemma f64_13: "fadd 0 (1080863910568919 / 9007199254740992) = 1080863910568919 / 9007199254740992"
  using round64_eval [of "0 + (1080863910568919 / 9007199254740992)" 56]
  by (simp add: fadd_def round_half_even_def emin_def)

lemma f64_14: "round64 (1 / 4) = 1 / 4"
  using round64_eval [of "1 / 4" 54]
  by (simp add: round_half_even_def emin_def)

lemma f64_15: "fadd (1080863910568919 / 9007199254740992) 0 = 1080863910568919 / 9007199254740992"
  using round64_eval [of "(1080863910568919 / 9007199254740992) + 0" 56]
  by (simp add: fadd_def round_half_even_def emin_def)

lemma f64_16: "round64 (3 / 20) = 5404319552844595 / 36028797018963968"
  using round64_eval [of "3 / 20" 55]
  by (simp add: round_half_even_def emin_def)

lemma f64_17: "fmul (1351079888211149 / 4503599627370496) (5404319552844595 / 36028797018963968) = 6485183463413515 / 144115188075855872"
  using round64_eval [of "(1351079888211149 / 4503599627370496) * (5404319552844595 / 36028797018963968)" 57]
  by (simp add: fmul_def round_half_even_def emin_def)

lemma f64_18: "fadd (1080863910568919 / 9007199254740992) (6485183463413515 / 144115188075855872) = 5944751508129055 / 36028797018963968"
  using round64_eval [of "(1080863910568919 / 9007199254740992) + (6485183463413515 / 144115188075855872)" 55]
  by (simp add: fadd_def round_half_even_def emin_def)

lemma f64_19: "fdiv 1 3 = 6004799503160661 / 18014398509481984"
  using round64_eval [of "1 / 3" 54]
  by (simp add: fdiv_def round_half_even_def emin_def)

lemma f64_20: "fmul (6004799503160661 / 18014398509481984) (5404319552844595 / 18014398509481984) = 7205759403792793 / 72057594037927936"
  using round64_eval [of "(6004799503160661 / 18014398509481984) * (5404319552844595 / 18014398509481984)" 56]
  by (simp add: fmul_def round_half_even_def emin_def)

lemma f64_21: "round64 (7 / 10) = 3152519739159347 / 4503599627370496"
  using round64_eval [of "7 / 10" 53]
  by (simp add: round_half_even_def emin_def)

lemma f64_22: "fadd (7205759403792793 / 72057594037927936) 0 = 7205759403792793 / 72057594037927936"
  using round64_eval [of "(7205759403792793 / 72057594037927936) + 0" 56]
  by (simp add: fadd_def round_half_even_def emin_def)

lemma f64_23: "fmul (7205759403792793 / 72057594037927936) 2 = 7205759403792793 / 36028797018963968"
  using round64_eval [of "(7205759403792793 / 72057594037927936) * 2" 55]
  by (simp add: fmul_def round_half_even_def emin_def)

lemma f64_24: "fdiv 9131 (1461 / 4) = 1759170439661191 / 70368744177664"
  using round64_eval [of "9131 / (1461 / 4)" 48]
  by (simp add: fdiv_def round_half_even_def emin_def)

lemma f64_25: "fadd (3602879701896397 / 18014398509481984) 0 = 3602879701896397 / 18014398509481984"
  using round64_eval [of "(3602879701896397 / 18014398509481984) + 0" 55]
  by (simp add: fadd_def round_half_even_def emin_def)

lemma f64_26: "fdiv 9132 (1461 / 4) = 7037452395131309 / 281474976710656"
  using round64_eval [of "9132 / (1461 / 4)" 48]
  by (simp add: fdiv_def round_half_even_def emin_def)

lemma f64_27: "fmul (3602879701896397 / 18014398509481984) (3602879701896397 / 18014398509481984) = 1441151880758559 / 36028797018963968"
  using round64_eval [of "(3602879701896397 / 18014398509481984) * (3602879701896397 / 18014398509481984)" 57]
  by (simp add: fmul_def round_half_even_def emin_def)

lemma f64_28: "fadd (1080863910568919 / 9007199254740992) (1441151880758559 / 36028797018963968) = 5764607523034235 / 36028797018963968"
  using round64_eval [of "(1080863910568919 / 9007199254740992) + (1441151880758559 / 36028797018963968)" 55]
  by (simp add: fadd_def round_half_even_def emin_def)

lemma f64_29: "fadd (5764607523034235 / 36028797018963968) 0 = 5764607523034235 / 36028797018963968"
  using round64_eval [of "(5764607523034235 / 36028797018963968) + 0" 55]
  by (simp add: fadd_def round_half_even_def emin_def)

lemma f64_30: "fmul (3602879701896397 / 36028797018963968) (3602879701896397 / 18014398509481984) = 1441151880758559 / 72057594037927936"
  using round64_eval [of "(3602879701896397 / 36028797018963968) * (3602879701896397 / 18014398509481984)" 58]
  by (simp add: fmul_def round_half_even_def emin_def)

lemma f64_31: "fadd (1080863910568919 / 9007199254740992) (1441151880758559 / 72057594037927936) = 1261007895663739 / 9007199254740992"
  using round64_eval [of "(1080863910568919 / 9007199254740992) + (1441151880758559 / 72057594037927936)" 55]
  by (simp add: fadd_def round_half_even_def emin_def)

lemma f64_32: "fadd (1261007895663739 / 9007199254740992) 0 = 1261007895663739 / 9007199254740992"
  using round64_eval [of "(1261007895663739 / 9007199254740992) + 0" 55]
  by (simp add: fadd_def round_half_even_def emin_def)

lemma f64_33: "round64 (4 / 25) = 5764607523034235 / 36028797018963968"
  using round64_eval [of "4 / 25" 55]
  by (simp add: round_half_even_def emin_def)

lemma f64_34: "round64 (7 / 50) = 1261007895663739 / 9007199254740992"
  using round64_eval [of "7 / 50" 55]
  by (simp add: round_half_even_def emin_def)

lemma f64_35: "round64 (33 / 200) = 5944751508129055 / 36028797018963968"
  using round64_eval [of "33 / 200" 55]
  by (simp add: round_half_even_def emin_def)

lemmas f64 = round64_zero fadd_zero_zero fmul_zero_left fmul_zero_right fdiv_zero_left
  f64_01 f64_02 f64_03 f64_04 f64_05 f64_06 f64_07 f64_08 f64_09 f64_10
  f64_11 f64_12 f64_13 f64_14 f64_15 f64_16 f64_17 f64_18 f64_19 f64_20
  f64_21 f64_22 f64_23 f64_24 f64_25 f64_26 f64_27 f64_28 f64_29 f64_30
  f64_31 f64_32 f64_33 f64_34 f64_35


section \<open>Claims about the risk scorer\<close>

lemma ex_far_dates:
  "days (appointment_datetime ex_appt_far - created_at ex_appt_far) = 64"
  "weekday (appointment_datetime ex_appt_far) = 2"
  "hour (appointment_datetime ex_appt_far) = 10"
  by (simp_all add: ex_appt_far_def ex_appt_def time_defs)

text \<open>
  C4, as stated, fails: an appointment booked 64 days ahead (a Wednesday at 10:00) gets
  +0.10 from advance booking, not +0.10 and +0.20; its whole timing sub-score is 0.10
  (the float that Python reads for \<open>0.1\<close>).
\<close>
theorem C4_counterexample:
  "60 < days (appointment_datetime ex_appt_far - created_at ex_appt_far) \<and>
   advance_booking_risk (days (appointment_datetime ex_appt_far - created_at ex_appt_far))
     \<noteq> fadd (round64 0.1) (round64 0.2) \<and>
   calculate_timing_risk ex_appt_far = round64 0.1"
  by (simp add: calculate_timing_risk_def ex_far_dates
      advance_booking_risk_def day_of_week_risk_def time_of_day_risk_def last_minute_risk_def f64)

text \<open>
  C4, amended. The two advance-booking penalties are the branches of one \<open>if\<close>/\<open>elif\<close>
  chain, so they never add up: advance booking contributes one of 0, +0.10, +0.20 (never
  +0.30) to the timing sub-score, and +0.10 when the appointment is booked more than 30
  and at most 60 days ahead. The timing sub-score is the sum of the weekday, hour,
  advance-booking and last-minute amounts, capped at 1.
\<close>
theorem C4_advance_booking_penalties_exclusive:
  "advance_booking_risk d \<in> {0, round64 0.1, round64 0.2} \<and>
   (30 < d \<and> d \<le> 60 \<longrightarrow> advance_booking_risk d = round64 0.1) \<and>
   calculate_timing_risk a =
     min 1 (fadd (fadd (fadd (fadd 0 (day_of_week_risk (weekday (appointment_datetime a))))
                             (time_of_day_risk (hour (appointment_datetime a))))
                       (advance_booking_risk (days (appointment_datetime a - created_at a))))
                 (last_minute_risk (days (appointment_datetime a - created_at a))))"
  by (simp add: advance_booking_risk_def calculate_timing_risk_def Let_def)

theorem C4_witness:
  "(30::int) < 45 \<and> (45::int) \<le> 60 \<and> advance_booking_risk 45 = round64 0.1"
  using C4_advance_booking_penalties_exclusive [of 45] by simp

text \<open>
  C5. When the patient and the appointment exist, \<open>predict_no_show_risk\<close> returns a
  prediction whose score is the weighted sum 0.40 historical + 0.25 timing + 0.20
  demographic + 0.15 financial (computed in floats, in this order), clamped to [0,1], hence
  within [0,1], and whose factor list holds exactly the labels of the sub-scores strictly
  above 0.30 (the float read for \<open>0.3\<close>), in the order historical, timing, demographic,
  financial.
\<close>
theorem C5_score_weighted_sum_and_factors:
  assumes "get_patient db pid = Some p" and "get_appointment db aid = Some a"
  shows "\<exists>pred db'.
           predict_no_show_risk db pid aid now = Inr (pred, db') \<and>
           risk_score pred =
             max 0 (min 1
               (fadd (fadd (fadd (fadd 0 (fmul (calculate_historical_risk db p now) (round64 0.40)))
                                 (fmul (calculate_timing_risk a) (round64 0.25)))
                           (fmul (calculate_demographic_risk p now) (round64 0.20)))
                     (fmul (calculate_financial_risk p a) (round64 0.15)))) \<and>
           0 \<le> risk_score pred \<and> risk_score pred \<le> 1 \<and>
           risk_factors pred =
             map snd (filter (\<lambda>(v, label). v > round64 0.30)
               [(calculate_historical_risk db p now, ''High historical no-show rate''),
                (calculate_timing_risk a, ''Unfavorable appointment timing''),
                (calculate_demographic_risk p now, ''Demographic risk factors''),
                (calculate_financial_risk p a, ''Insurance/financial concerns'')])"
  using assms by (simp add: predict_no_show_risk_def Let_def)

text \<open>
  The claim at the threshold: a Medicaid patient (+0.1) whose appointment has no verified
  insurance (+0.2). The financial sub-score is the float sum \<open>0.2 + 0.1\<close>, which is
  0.30000000000000004 and strictly above the float \<open>0.3\<close>, so its label is listed; the
  historical sub-score of this new patient is the float \<open>0.3\<close> itself, which is not. The
  score is 0.165.
\<close>
lemma ex_medicaid_patient:
  "get_patient ex_db_medicaid ''pat_003'' = Some ex_patient_medicaid"
  by (simp add: get_patient_def ex_db_medicaid_def ex_patient_medicaid_def)

lemma ex_medicaid_appointment:
  "get_appointment ex_db_medicaid ''apt_5'' = Some ex_appt_medicaid"
  by (simp add: get_appointment_def ex_db_medicaid_def ex_appt_medicaid_def ex_appt_def)

lemma ex_medicaid_historical:
  "calculate_historical_risk ex_db_medicaid ex_patient_medicaid now = round64 0.3"
  by (simp add: calculate_historical_risk_def get_appointments_def ex_db_medicaid_def
      ex_patient_medicaid_def ex_appt_medicaid_def ex_appt_def truthy_str_def)

lemma ex_medicaid_dates:
  "days (appointment_datetime ex_appt_medicaid - created_at ex_appt_medicaid) = 9"
  "weekday (appointment_datetime ex_appt_medicaid) = 1"
  "hour (appointment_datetime ex_appt_medicaid) = 10"
  "days (ex_now - date_of_birth ex_patient_medicaid) = 14610"
  by (simp_all add: ex_appt_medicaid_def ex_appt_def ex_now_def ex_patient_medicaid_def
      ex_patient_def time_defs)

lemma ex_medicaid_timing: "calculate_timing_risk ex_appt_medicaid = 0"
  by (simp add: calculate_timing_risk_def ex_medicaid_dates
      advance_booking_risk_def day_of_week_risk_def time_of_day_risk_def last_minute_risk_def f64)

lemma ex_strip_contact: "strip ''Kim Lee 555-0102'' = ''Kim Lee 555-0102''"
  by (simp add: strip_def is_space_def)

lemma ex_medicaid_demographic: "calculate_demographic_risk ex_patient_medicaid ex_now = 0"
proof -
  have fields: "preferred_communication ex_patient_medicaid = ''phone''"
    "pat_status ex_patient_medicaid = ACTIVE"
    "emergency_contact ex_patient_medicaid = ''Kim Lee 555-0102''"
    by (simp_all add: ex_patient_medicaid_def ex_patient_def)
  show ?thesis
    by (simp add: calculate_demographic_risk_def ex_medicaid_dates fields ex_strip_contact f64)
qed

lemma ex_lower_medicaid: "lower ''Medicaid'' = ''medicaid''"
  by code_simp

lemma ex_medicaid_financial:
  "calculate_financial_risk ex_patient_medicaid ex_appt_medicaid
     = fadd (round64 0.2) (round64 0.1)"
proof -
  have fields: "insurance_provider ex_patient_medicaid = ''Medicaid''"
    "insurance_number ex_patient_medicaid = ''AET123456''"
    "\<not> insurance_verified ex_appt_medicaid"
    by (simp_all add: ex_patient_medicaid_def ex_patient_def ex_appt_medicaid_def ex_appt_def)
  show ?thesis
    by (simp add: calculate_financial_risk_def fields ex_lower_medicaid f64)
qed

theorem C5_witness:
  "get_patient ex_db_medicaid ''pat_003'' = Some ex_patient_medicaid \<and>
   get_appointment ex_db_medicaid ''apt_5'' = Some ex_appt_medicaid \<and>
   round64 0.3 < calculate_financial_risk ex_patient_medicaid ex_appt_medicaid \<and>
   \<not> round64 0.3 < calculate_historical_risk ex_db_medicaid ex_patient_medicaid ex_now \<and>
   (\<exists>pred db'. predict_no_show_risk ex_db_medicaid ''pat_003'' ''apt_5'' ex_now = Inr (pred, db') \<and>
      risk_score pred = round64 0.165 \<and> 0 \<le> risk_score pred \<and> risk_score pred \<le> 1 \<and>
      risk_factors pred = [''Insurance/financial concerns''])"
proof -
  from C5_score_weighted_sum_and_factors [OF ex_medicaid_patient ex_medicaid_appointment, of ex_now]
  obtain pred db' where
    r: "predict_no_show_risk ex_db_medicaid ''pat_003'' ''apt_5'' ex_now = Inr (pred, db')"
    and s: "risk_score pred =
             max 0 (min 1
               (fadd (fadd (fadd (fadd 0
                  (fmul (calculate_historical_risk ex_db_medicaid ex_patient_medicaid ex_now)
                        (round64 0.40)))
                  (fmul (calculate_timing_risk ex_appt_medicaid) (round64 0.25)))
                  (fmul (calculate_demographic_risk ex_patient_medicaid ex_now) (round64 0.20)))
                  (fmul (calculate_financial_risk ex_patient_medicaid ex_appt_medicaid)
                        (round64 0.15))))"
    and b: "0 \<le> risk_score pred" "risk_score pred \<le> 1"
    and f: "risk_factors pred =
             map snd (filter (\<lambda>(v, label). v > round64 0.30)
               [(calculate_historical_risk ex_db_medicaid ex_patient_medicaid ex_now,
                   ''High historical no-show rate''),
                (calculate_timing_risk ex_appt_medicaid, ''Unfavorable appointment timing''),
                (calculate_demographic_risk ex_patient_medicaid ex_now,
                   ''Demographic risk factors''),
                (calculate_financial_risk ex_patient_medicaid ex_appt_medicaid,
                   ''Insurance/financial concerns'')])"
    by blast
  have s': "risk_score pred = round64 0.165"
    unfolding s ex_medicaid_historical ex_medicaid_timing ex_medicaid_demographic
      ex_medicaid_financial
    by (simp add: f64)
  have f': "risk_factors pred = [''Insurance/financial concerns'']"
    unfolding f ex_medicaid_historical ex_medicaid_timing ex_medicaid_demographic
      ex_medicaid_financial
    by (simp add: f64)
  have fin: "round64 0.3 < calculate_financial_risk ex_patient_medicaid ex_appt_medicaid"
    unfolding ex_medicaid_financial by (simp add: f64)
  have hist: "\<not> round64 0.3 < calculate_historical_risk ex_db_medicaid ex_patient_medicaid ex_now"
    unfolding ex_medicaid_historical by simp
  from r s' b f' fin hist ex_medicaid_patient ex_medicaid_appointment show ?thesis
    by blast
qed

lemma ex_young_patient: "get_patient ex_db_young ''pat_002'' = Some ex_patient_young"
  by (simp add: get_patient_def ex_db_young_def ex_patient_young_def)

lemma ex_young_appointment:
  "get_appointment ex_db_young ''apt_9'' =
     Some ((ex_appt ''apt_9'' (at_time 738893 10 0) SCHEDULED (at_time 738884 9 0))
             \<lparr>patient_id := ''pat_002''\<rparr>)"
  by (simp add: get_appointment_def ex_db_young_def ex_appt_def)

lemma ex_lower_aetna: "lower ''Aetna'' = ''aetna''"
  by code_simp

lemma ex_young_historical:
  "calculate_historical_risk (ex_db_young\<lparr>predictions := ps\<rparr>) ex_patient_young now
     = round64 0.3"
  by (simp add: calculate_historical_risk_def get_appointments_def ex_db_young_def
      ex_patient_young_def ex_patient_def ex_appt_def truthy_str_def)

lemma ex_young_dates:
  "days (appointment_datetime (ex_appt ''apt_9'' (at_time 738893 10 0) SCHEDULED (at_time 738884 9 0)) - created_at (ex_appt ''apt_9'' (at_time 738893 10 0) SCHEDULED (at_time 738884 9 0))) = 9"
  "weekday (appointment_datetime (ex_appt ''apt_9'' (at_time 738893 10 0) SCHEDULED (at_time 738884 9 0))) = 1"
  "hour (appointment_datetime (ex_appt ''apt_9'' (at_time 738893 10 0) SCHEDULED (at_time 738884 9 0))) = 10"
  "days (at_time 738885 12 0 - date_of_birth ex_patient_young) = 9131"
  "days (at_time 738886 12 0 - date_of_birth ex_patient_young) = 9132"
  by (simp_all add: ex_appt_def ex_patient_young_def ex_patient_def time_defs)

lemma ex_young_timing:
  "calculate_timing_risk ((ex_appt ''apt_9'' (at_time 738893 10 0) SCHEDULED (at_time 738884 9 0))
             \<lparr>patient_id := ''pat_002''\<rparr>) = 0"
  by (simp add: calculate_timing_risk_def ex_young_dates
      advance_booking_risk_def day_of_week_risk_def time_of_day_risk_def last_minute_risk_def f64)

lemma ex_young_financial:
  "calculate_financial_risk ex_patient_young ((ex_appt ''apt_9'' (at_time 738893 10 0) SCHEDULED (at_time 738884 9 0))
             \<lparr>patient_id := ''pat_002''\<rparr>) = 0"
proof -
  have fields: "insurance_provider ex_patient_young = ''Aetna''"
    "insurance_number ex_patient_young = ''AET123456''"
    "insurance_verified ((ex_appt ''apt_9'' (at_time 738893 10 0) SCHEDULED (at_time 738884 9 0))
             \<lparr>patient_id := ''pat_002''\<rparr>)"
    by (simp_all add: ex_patient_young_def ex_patient_def ex_appt_def)
  show ?thesis
    by (simp add: calculate_financial_risk_def fields ex_lower_aetna f64)
qed

lemma ex_young_fields:
  "preferred_communication ex_patient_young = ''phone''"
  "pat_status ex_patient_young = ACTIVE"
  "emergency_contact ex_patient_young = ''Kim Lee 555-0102''"
  by (simp_all add: ex_patient_young_def ex_patient_def)

lemma ex_young_demographic_1:
  "calculate_demographic_risk ex_patient_young (at_time 738885 12 0) = round64 0.2"
  by (simp add: calculate_demographic_risk_def ex_young_dates ex_young_fields
      ex_strip_contact f64)

lemma ex_young_demographic_2:
  "calculate_demographic_risk ex_patient_young (at_time 738886 12 0) = round64 0.1"
  by (simp add: calculate_demographic_risk_def ex_young_dates ex_young_fields
      ex_strip_contact f64)

lemma ex_young_first:
  "predict_no_show_risk ex_db_young ''pat_002'' ''apt_9'' (at_time 738885 12 0) =
     Inr (\<lparr> pred_patient_id = ''pat_002'', pred_appointment_id = ''apt_9'',
             risk_score = round64 0.16, risk_factors = [],
             prediction_date = at_time 738885 12 0 \<rparr>,
          ex_db_young\<lparr>predictions :=
             [\<lparr> pred_patient_id = ''pat_002'', pred_appointment_id = ''apt_9'',
                risk_score = round64 0.16, risk_factors = [],
                prediction_date = at_time 738885 12 0 \<rparr>]\<rparr>)"
proof -
  have h: "calculate_historical_risk ex_db_young ex_patient_young now = round64 0.3" for now
    using ex_young_historical [of "predictions ex_db_young"] by simp
  have e: "predictions ex_db_young = []" by (simp add: ex_db_young_def)
  show ?thesis
    by (simp add: predict_no_show_risk_def ex_young_patient ex_young_appointment h Let_def
        ex_young_timing ex_young_financial ex_young_demographic_1 add_no_show_prediction_def
        e f64)
qed

lemma ex_young_second:
  "predict_no_show_risk
     (ex_db_young\<lparr>predictions :=
             [\<lparr> pred_patient_id = ''pat_002'', pred_appointment_id = ''apt_9'',
                risk_score = round64 0.16, risk_factors = [],
                prediction_date = at_time 738885 12 0 \<rparr>]\<rparr>)
     ''pat_002'' ''apt_9'' (at_time 738886 12 0) =
     Inr (\<lparr> pred_patient_id = ''pat_002'', pred_appointment_id = ''apt_9'',
             risk_score = round64 0.14, risk_factors = [],
             prediction_date = at_time 738886 12 0 \<rparr>,
          ex_db_young\<lparr>predictions :=
             [\<lparr> pred_patient_id = ''pat_002'', pred_appointment_id = ''apt_9'',
                risk_score = round64 0.14, risk_factors = [],
                prediction_date = at_time 738886 12 0 \<rparr>]\<rparr>)"
proof -
  have p: "get_patient (ex_db_young\<lparr>predictions := ps\<rparr>) ''pat_002'' = Some ex_patient_young" for ps
    using ex_young_patient by (simp add: get_patient_def)
  have a: "get_appointment (ex_db_young\<lparr>predictions := ps\<rparr>) ''apt_9'' =
     Some ((ex_appt ''apt_9'' (at_time 738893 10 0) SCHEDULED (at_time 738884 9 0))
             \<lparr>patient_id := ''pat_002''\<rparr>)" for ps
    using ex_young_appointment by (simp add: get_appointment_def)
  show ?thesis
    by (simp add: predict_no_show_risk_def p a ex_young_historical Let_def
        ex_young_timing ex_young_financial ex_young_demographic_2 add_no_show_prediction_def f64)
qed

text \<open>
  C9, as stated, fails: the score also depends on the clock. With nothing changed in the
  store but the prediction the first call wrote, a call at noon of day 738885 scores 0.16
  and a call one day later scores 0.14 (the patient's age passes 25 in between).
\<close>
theorem C9_counterexample:
  "\<not> isl (predict_no_show_risk ex_db_young ''pat_002'' ''apt_9'' (at_time 738885 12 0)) \<and>
   patients (snd (projr (predict_no_show_risk ex_db_young ''pat_002'' ''apt_9''
                          (at_time 738885 12 0)))) = patients ex_db_young \<and>
   appointments (snd (projr (predict_no_show_risk ex_db_young ''pat_002'' ''apt_9''
                          (at_time 738885 12 0)))) = appointments ex_db_young \<and>
   risk_score (fst (projr (predict_no_show_risk ex_db_young ''pat_002'' ''apt_9''
                          (at_time 738885 12 0)))) = round64 0.16 \<and>
   risk_score (fst (projr (predict_no_show_risk
        (snd (projr (predict_no_show_risk ex_db_young ''pat_002'' ''apt_9''
                          (at_time 738885 12 0))))
        ''pat_002'' ''apt_9'' (at_time 738886 12 0)))) = round64 0.14 \<and>
   round64 0.16 \<noteq> round64 0.14"
  unfolding ex_young_first sum.sel snd_conv fst_conv ex_young_second
  by (simp add: f64)

lemma find_append_list:
  "find P (xs @ ys) = (case find P xs of None \<Rightarrow> find P ys | Some x \<Rightarrow> Some x)"
  by (induction xs) auto

lemma find_filter_none: "find P (filter (\<lambda>x. \<not> P x) xs) = None"
  by (induction xs) auto

lemma predict_reads:
  "get_patient (db\<lparr>predictions := ps\<rparr>) pid = get_patient db pid"
  "get_appointment (db\<lparr>predictions := ps\<rparr>) aid = get_appointment db aid"
  "calculate_historical_risk (db\<lparr>predictions := ps\<rparr>) p now = calculate_historical_risk db p now"
  by (simp_all add: get_patient_def get_appointment_def calculate_historical_risk_def
      get_appointments_def)

text \<open>
  C9, amended. \<open>predict_no_show_risk\<close> is a function of the persisted patients and
  appointments and of the clock reading: a successful call changes nothing but the stored
  predictions, a second call succeeds too, at the same clock reading it returns the same
  score and the same factor list, and (at any clock reading) its prediction replaces the
  first, leaving exactly one stored prediction for the appointment.
\<close>
theorem C9_same_clock_same_prediction_replaced:
  assumes "predict_no_show_risk db pid aid now = Inr (p1, db1)"
  shows "patients db1 = patients db \<and> appointments db1 = appointments db \<and>
         doctors db1 = doctors db \<and>
         (\<exists>p2 db2. predict_no_show_risk db1 pid aid now2 = Inr (p2, db2) \<and>
            (now2 = now \<longrightarrow> risk_score p2 = risk_score p1 \<and> risk_factors p2 = risk_factors p1) \<and>
            filter (\<lambda>p. pred_appointment_id p = aid) (predictions db2) = [p2] \<and>
            get_no_show_prediction db2 aid = Some p2)"
proof -
  from assms obtain p a where p: "get_patient db pid = Some p"
    and a: "get_appointment db aid = Some a"
    by (auto simp: predict_no_show_risk_def split: option.splits)
  from assms p a have db1: "db1 = fst (add_no_show_prediction db p1)"
    and id1: "pred_appointment_id p1 = aid"
    by (auto simp: predict_no_show_risk_def Let_def)
  have db1': "db1 = db\<lparr>predictions :=
          filter (\<lambda>q. pred_appointment_id q \<noteq> aid) (predictions db) @ [p1]\<rparr>"
    using db1 id1 by (simp add: add_no_show_prediction_def)
  show ?thesis
    using assms p a
    unfolding db1'
    by (auto simp: predict_no_show_risk_def Let_def predict_reads add_no_show_prediction_def
        get_no_show_prediction_def find_append_list find_filter_none filter_empty_conv
        split: option.splits)
qed

theorem C9_witness:
  "predict_no_show_risk ex_db_young ''pat_002'' ''apt_9'' (at_time 738885 12 0) =
     Inr (\<lparr> pred_patient_id = ''pat_002'', pred_appointment_id = ''apt_9'',
             risk_score = round64 0.16, risk_factors = [],
             prediction_date = at_time 738885 12 0 \<rparr>,
          ex_db_young\<lparr>predictions :=
             [\<lparr> pred_patient_id = ''pat_002'', pred_appointment_id = ''apt_9'',
                risk_score = round64 0.16, risk_factors = [],
                prediction_date = at_time 738885 12 0 \<rparr>]\<rparr>) \<and>
   (\<exists>p2 db2. predict_no_show_risk
        (ex_db_young\<lparr>predictions :=
             [\<lparr> pred_patient_id = ''pat_002'', pred_appointment_id = ''apt_9'',
                risk_score = round64 0.16, risk_factors = [],
                prediction_date = at_time 738885 12 0 \<rparr>]\<rparr>)
        ''pat_002'' ''apt_9'' (at_time 738885 12 0) = Inr (p2, db2) \<and>
      risk_score p2 = round64 0.16 \<and> risk_factors p2 = [] \<and>
      filter (\<lambda>p. pred_appointment_id p = ''apt_9'') (predictions db2) = [p2])"
  using C9_same_clock_same_prediction_replaced [OF ex_young_first, of "at_time 738885 12 0"]
    ex_young_first
  by auto

lemma ex_history_appointments:
  "get_appointments ex_db_history None (Some (pat_id ex_patient)) None None =
     [ex_appt ''apt_1'' (at_time 738875 10 0) COMPLETED (at_time 738870 9 0),
      ex_appt ''apt_2'' (at_time 738893 10 0) SCHEDULED (at_time 738884 9 0)]"
  by (simp add: get_appointments_def truthy_str_def ex_db_history_def ex_db_def ex_patient_def
      ex_appt_def)

lemma ex_history_recent:
  "filter (\<lambda>a. appointment_datetime a > ex_now - timedelta_days 90)
     [ex_appt ''apt_1'' (at_time 738875 10 0) COMPLETED (at_time 738870 9 0),
      ex_appt ''apt_2'' (at_time 738893 10 0) SCHEDULED (at_time 738884 9 0)] =
     [ex_appt ''apt_1'' (at_time 738875 10 0) COMPLETED (at_time 738870 9 0),
      ex_appt ''apt_2'' (at_time 738893 10 0) SCHEDULED (at_time 738884 9 0)]"
  by (simp add: ex_appt_def ex_now_def time_defs)

lemma ex_history_past:
  "filter (\<lambda>a. appointment_datetime a < ex_now)
     [ex_appt ''apt_1'' (at_time 738875 10 0) COMPLETED (at_time 738870 9 0),
      ex_appt ''apt_2'' (at_time 738893 10 0) SCHEDULED (at_time 738884 9 0)] =
     [ex_appt ''apt_1'' (at_time 738875 10 0) COMPLETED (at_time 738870 9 0)]"
  by (simp add: ex_appt_def ex_now_def time_defs)

lemma ex_history_risk: "calculate_historical_risk ex_db_history ex_patient ex_now = 0"
  unfolding calculate_historical_risk_def ex_history_appointments Let_def ex_history_recent
  by (simp add: ex_appt_def f64)

text \<open>
  Claim C6 as stated (fewer than two past appointments give exactly 0.30) fails: in
  \<open>ex_db_history\<close> patient \<open>pat_001\<close> has one appointment before the clock reading and one
  after it; \<open>_calculate_historical_risk\<close> counts both and returns 0.
\<close>
theorem C6_counterexample:
  "length (past_appointments ex_db_history ex_patient ex_now) = 1
   \<and> calculate_historical_risk ex_db_history ex_patient ex_now = 0
   \<and> calculate_historical_risk ex_db_history ex_patient ex_now \<noteq> round64 0.3"
  unfolding past_appointments_def ex_history_appointments ex_history_past ex_history_risk
  by (simp add: f64)

text \<open>
  Claim C6, amended: the historical sub-score is computed over all appointments stored for
  the patient, whatever their date and status. With fewer than two of them it is exactly
  0.30; otherwise it is the no-show fraction over all of them, blended 30%/70% with the
  no-show fraction over those later than 90 days before the clock reading (when there is
  one), scaled by 2 and clamped to at most 1 (all of it in floats).
\<close>
theorem C6_historical_over_all_appointments:
  assumes "pat_id p \<noteq> []"
  shows "calculate_historical_risk db p now =
     (let appts = filter (\<lambda>a. patient_id a = pat_id p) (appointments db);
          recent = filter (\<lambda>a. now - timedelta_days 90 < appointment_datetime a) appts
      in if length appts < 2 then round64 0.3
         else min 1 (fmul (if recent = [] then no_show_fraction appts
                           else fadd (fmul (no_show_fraction appts) (round64 0.3))
                                     (fmul (no_show_fraction recent) (round64 0.7))) 2))"
proof -
  have "get_appointments db None (Some (pat_id p)) None None
          = filter (\<lambda>a. patient_id a = pat_id p) (appointments db)"
    using assms by (simp add: get_appointments_def truthy_str_def)
  thus ?thesis
    by (simp add: calculate_historical_risk_def Let_def no_show_fraction_def)
qed

lemma ex_missed_appointments:
  "filter (\<lambda>a. patient_id a = pat_id ex_patient) (appointments ex_db_missed) =
     [ex_appt ''apt_0'' (at_time 738700 10 0) NO_SHOW (at_time 738690 9 0),
      ex_appt ''apt_1'' (at_time 738875 10 0) COMPLETED (at_time 738870 9 0),
      ex_appt ''apt_2'' (at_time 738893 10 0) SCHEDULED (at_time 738884 9 0)]"
  by (simp add: ex_db_missed_def ex_db_def ex_patient_def ex_appt_def)

lemma ex_missed_recent:
  "filter (\<lambda>a. ex_now - timedelta_days 90 < appointment_datetime a)
     [ex_appt ''apt_0'' (at_time 738700 10 0) NO_SHOW (at_time 738690 9 0),
      ex_appt ''apt_1'' (at_time 738875 10 0) COMPLETED (at_time 738870 9 0),
      ex_appt ''apt_2'' (at_time 738893 10 0) SCHEDULED (at_time 738884 9 0)] =
     [ex_appt ''apt_1'' (at_time 738875 10 0) COMPLETED (at_time 738870 9 0),
      ex_appt ''apt_2'' (at_time 738893 10 0) SCHEDULED (at_time 738884 9 0)]"
  by (simp add: ex_appt_def ex_now_def time_defs)

text \<open>
  The amended claim at \<open>ex_db_missed\<close>: one no-show among three appointments, none among
  the two recent ones; in floats \<open>(1 / 3) * 0.3 * 2\<close> is 0.19999999999999998, one unit in
  the last place below the float \<open>0.2\<close>.
\<close>
theorem C6_witness:
  "pat_id ex_patient \<noteq> [] \<and>
   calculate_historical_risk ex_db_missed ex_patient ex_now
     = 7205759403792793 / 36028797018963968 \<and>
   calculate_historical_risk ex_db_missed ex_patient ex_now < round64 0.2"
proof -
  have id: "pat_id ex_patient \<noteq> []" by (simp add: ex_patient_def)
  have "calculate_historical_risk ex_db_missed ex_patient ex_now
          = 7205759403792793 / 36028797018963968"
    unfolding C6_historical_over_all_appointments [OF id] ex_missed_appointments Let_def
      ex_missed_recent
    by (simp add: no_show_fraction_def ex_appt_def f64)
  then show ?thesis using id by (simp add: f64)
qed

end
